theory Spec2Isabelle
  imports Complex_Main "HOL-Library.Word" "HOL-Library.Finite_Map"
begin

section \<open>JavaScript values\<close>

text \<open>
  A JavaScript string is a sequence of UTF-16 code units. ASCII literals of the source are
  written with \<open>ascii\<close>; the two Chinese literals of the service are spelled out as code units.
\<close>

type_synonym jsstring = "16 word list"

definition ascii :: "string \<Rightarrow> jsstring" where
  "ascii s = map (\<lambda>c. of_nat (of_char c)) s"

text \<open>
  A JavaScript number, as far as the program uses it: it is only compared. The finite
  doubles are real numbers; \<open>NaN\<close> compares false with everything.
\<close>

datatype jsnum = NaN | NegInf | Fin real | PosInf

fun js_lt :: "jsnum \<Rightarrow> jsnum \<Rightarrow> bool" where
  "js_lt NaN _ = False"
| "js_lt _ NaN = False"
| "js_lt (Fin a) (Fin b) = (a < b)"
| "js_lt NegInf NegInf = False"
| "js_lt NegInf _ = True"
| "js_lt _ NegInf = False"
| "js_lt PosInf _ = False"
| "js_lt _ PosInf = True"

fun js_le :: "jsnum \<Rightarrow> jsnum \<Rightarrow> bool" where
  "js_le NaN _ = False"
| "js_le _ NaN = False"
| "js_le (Fin a) (Fin b) = (a \<le> b)"
| "js_le NegInf _ = True"
| "js_le _ PosInf = True"
| "js_le _ NegInf = False"
| "js_le PosInf _ = False"

text \<open>The values \<open>JSON.parse\<close> can produce, and \<open>undefined\<close> for a property that is absent.\<close>

datatype jsval =
    JUndefined
  | JNull
  | JBool bool
  | JNum jsnum
  | JStr jsstring
  | JArr "jsval list"
  | JObj "(jsstring \<times> jsval) list"

text \<open>The exceptions of the runtime itself (a rejected \<open>fetch\<close> is a \<open>TypeError\<close> too).\<close>

datatype js_exn = TypeError | SyntaxError

text \<open>
  \<open>v.name\<close> for the names the program reads (\<open>from\<close>, \<open>to\<close>, \<open>content\<close>, \<open>subtitles\<close>,
  \<open>error\<close>, \<open>videoId\<close>): reading a property of \<open>null\<close> or \<open>undefined\<close> throws, an object
  gives the property or \<open>undefined\<close>, and no primitive or array has a property of one of
  these names.
\<close>

fun get_prop :: "jsval \<Rightarrow> jsstring \<Rightarrow> js_exn + jsval" where
  "get_prop JUndefined k = Inl TypeError"
| "get_prop JNull k = Inl TypeError"
| "get_prop (JObj fs) k = Inr (case map_of fs k of None \<Rightarrow> JUndefined | Some v \<Rightarrow> v)"
| "get_prop v k = Inr JUndefined"

text \<open>What \<open>if (v)\<close>, \<open>!v\<close> and \<open>v || w\<close> test.\<close>

fun truthy :: "jsval \<Rightarrow> bool" where
  "truthy JUndefined = False"
| "truthy JNull = False"
| "truthy (JBool b) = b"
| "truthy (JNum n) = (n \<noteq> NaN \<and> n \<noteq> Fin 0)"
| "truthy (JStr s) = (s \<noteq> [])"
| "truthy (JArr vs) = True"
| "truthy (JObj fs) = True"

text \<open>
  \<open>String.prototype.trim\<close> removes WhiteSpace and LineTerminator code units from both ends.
\<close>

definition js_whitespace :: "16 word \<Rightarrow> bool" where
  "js_whitespace c \<longleftrightarrow>
     c \<in> {0x9, 0xA, 0xB, 0xC, 0xD, 0x20, 0xA0, 0x1680, 0x2028, 0x2029, 0x202F, 0x205F,
          0x3000, 0xFEFF}
     \<or> (0x2000 \<le> c \<and> c \<le> 0x200A)"

definition trim :: "jsstring \<Rightarrow> jsstring" where
  "trim s = rev (dropWhile js_whitespace (rev (dropWhile js_whitespace s)))"

text \<open>The decimal digits of an array index, as a template literal prints it.\<close>

fun decimal :: "nat \<Rightarrow> jsstring" where
  "decimal n =
     (if n < 10 then [of_nat (48 + n)] else decimal (n div 10) @ [of_nat (48 + n mod 10)])"

declare decimal.simps [simp del]

section \<open>services/subtitleParser.ts\<close>

record SubtitleSegment =
  id' :: jsstring
  videoId :: jsstring
  startTime :: jsnum
  endTime :: jsnum
  text' :: jsstring
  index :: nat
  language :: "jsstring option"

text \<open>
  The callback of \<open>raw.filter\<close>. The three checks are in the source's order; the first
  property access throws on a \<open>null\<close> or \<open>undefined\<close> item.
\<close>

definition filter_item :: "jsval \<Rightarrow> js_exn + bool" where
  "filter_item item =
     (case get_prop item (ascii ''from'') of
        Inl e \<Rightarrow> Inl e
      | Inr f \<Rightarrow>
     (case get_prop item (ascii ''to'') of
        Inl e \<Rightarrow> Inl e
      | Inr t \<Rightarrow>
     (case get_prop item (ascii ''content'') of
        Inl e \<Rightarrow> Inl e
      | Inr c \<Rightarrow>
     (case (f, t, c) of
        (JNum a, JNum b, JStr s) \<Rightarrow>
          if js_lt a (Fin 0) \<or> js_le b a then Inr False
          else if length (trim s) = 0 then Inr False
          else Inr True
      | _ \<Rightarrow> Inr False))))"

text \<open>\<open>Array.prototype.filter\<close> with a callback that may throw.\<close>

fun filter_items :: "jsval list \<Rightarrow> js_exn + jsval list" where
  "filter_items [] = Inr []"
| "filter_items (x # xs) =
     (case filter_item x of
        Inl e \<Rightarrow> Inl e
      | Inr keep \<Rightarrow>
          (case filter_items xs of
             Inl e \<Rightarrow> Inl e
           | Inr ys \<Rightarrow> Inr (if keep then x # ys else ys)))"

text \<open>
  The callback of \<open>.map\<close>. On an item the filter kept, \<open>from\<close> and \<open>to\<close> are numbers and
  \<open>content\<close> is a string; \<open>content.trim()\<close> throws on anything but a string. The map never
  sees another item (lemma \<open>map_item_kept\<close> below).
\<close>

definition map_item :: "jsstring \<Rightarrow> jsval \<Rightarrow> nat \<Rightarrow> js_exn + SubtitleSegment" where
  "map_item vid item i =
     (case (get_prop item (ascii ''from''), get_prop item (ascii ''to''),
            get_prop item (ascii ''content'')) of
        (Inr (JNum a), Inr (JNum b), Inr (JStr s)) \<Rightarrow>
          Inr \<lparr> id' = ascii ''subtitle-'' @ decimal i, videoId = vid, startTime = a,
                endTime = b, text' = trim s, index = i, language = None \<rparr>
      | _ \<Rightarrow> Inl TypeError)"

text \<open>\<open>Array.prototype.map\<close>, the callback given the element and its index, from index \<open>i\<close> on.\<close>

fun map_items :: "jsstring \<Rightarrow> nat \<Rightarrow> jsval list \<Rightarrow> js_exn + SubtitleSegment list" where
  "map_items vid i [] = Inr []"
| "map_items vid i (x # xs) =
     (case map_item vid x i of
        Inl e \<Rightarrow> Inl e
      | Inr s \<Rightarrow>
          (case map_items vid (Suc i) xs of
             Inl e \<Rightarrow> Inl e
           | Inr ss \<Rightarrow> Inr (s # ss)))"

definition parseSubtitles :: "jsval \<Rightarrow> jsstring \<Rightarrow> js_exn + SubtitleSegment list" where
  "parseSubtitles raw vid =
     (case raw of
        JArr items \<Rightarrow>
          (case filter_items items of
             Inl e \<Rightarrow> Inl e
           | Inr kept \<Rightarrow> map_items vid 0 kept)
      | _ \<Rightarrow> Inr [])"

text \<open>\<open>subtitles.find(...) || null\<close>: a segment is an object, hence truthy.\<close>

definition is_active :: "jsnum \<Rightarrow> SubtitleSegment \<Rightarrow> bool" where
  "is_active currentTime s \<longleftrightarrow> js_le (startTime s) currentTime \<and> js_lt currentTime (endTime s)"

definition findActiveSubtitle :: "jsnum \<Rightarrow> SubtitleSegment list \<Rightarrow> SubtitleSegment option" where
  "findActiveSubtitle currentTime subtitles = List.find (is_active currentTime) subtitles"


section \<open>services/indexedDBStorage.ts\<close>

datatype cache_source = Native | SpeechRecognition

text \<open>\<open>SubtitleCache\<close>; its \<open>subtitles\<close> are typed \<open>any[]\<close>, so they are a JSON value here.\<close>

record SubtitleCache =
  c_videoId :: jsstring
  subtitles :: jsval
  cachedAt :: int
  expiresAt :: int
  source :: cache_source
  c_language :: jsstring

definition CACHE_TTL :: int where
  "CACHE_TTL = 30 * 24 * 60 * 60 * 1000"

datatype idb_error =
    INDEXEDDB_INIT_FAILED
  | INDEXEDDB_NOT_AVAILABLE
  | INDEXEDDB_NOT_INITIALIZED
  | CACHE_SAVE_FAILED

text \<open>
  The browser as the service meets it: whether \<open>window\<close> and \<open>window.indexedDB\<close> exist,
  whether \<open>openDB\<close> succeeds, and whether a request of each kind on the open database
  succeeds (a full quota or a corrupt store makes it reject).
\<close>

record browser =
  has_window :: bool
  has_indexedDB :: bool
  open_ok :: bool
  get_ok :: bool
  put_ok :: bool
  delete_ok :: bool
  clear_ok :: bool
  tx_ok :: bool

datatype promise_state = Fulfilled | Rejected

text \<open>
  The service object (\<open>db\<close>: \<open>this.db\<close> is not null; \<open>initPromise\<close>: none yet, or settled)
  together with the content of the object store \<open>subtitle-cache\<close>, keyed by \<open>videoId\<close>.
\<close>

record idb =
  db :: bool
  initPromise :: "promise_state option"
  entries :: "(jsstring, SubtitleCache) fmap"

definition initialize :: "browser \<Rightarrow> idb \<Rightarrow> (idb_error + unit) \<times> idb" where
  "initialize b s =
     (case initPromise s of
        Some Fulfilled \<Rightarrow> (Inr (), s)
      | Some Rejected \<Rightarrow> (Inl INDEXEDDB_INIT_FAILED, s)
      | None \<Rightarrow>
          if open_ok b then (Inr (), s\<lparr>db := True, initPromise := Some Fulfilled\<rparr>)
          else (Inl INDEXEDDB_INIT_FAILED, s\<lparr>initPromise := Some Rejected\<rparr>))"

definition isAvailable :: "browser \<Rightarrow> bool" where
  "isAvailable b \<longleftrightarrow> has_window b \<and> has_indexedDB b"

text \<open>
  Every operation takes the reading of \<open>Date.now()\<close> as \<open>now\<close>; the two readings inside
  the object literal of \<open>saveSubtitleCache\<close> are one instant.
\<close>

definition saveSubtitleCache ::
  "browser \<Rightarrow> int \<Rightarrow> SubtitleCache \<Rightarrow> idb \<Rightarrow> (idb_error + unit) \<times> idb" where
  "saveSubtitleCache b now cache s =
     (if \<not> isAvailable b then (Inl INDEXEDDB_NOT_AVAILABLE, s)
      else case initialize b s of
        (Inl e, s1) \<Rightarrow> (Inl e, s1)
      | (Inr _, s1) \<Rightarrow>
          if \<not> db s1 then (Inl INDEXEDDB_NOT_INITIALIZED, s1)
          else
            let cacheWithExpiry = cache\<lparr>cachedAt := now, expiresAt := now + CACHE_TTL\<rparr>
            in if put_ok b
               then (Inr (), s1\<lparr>entries := fmupd (c_videoId cacheWithExpiry) cacheWithExpiry
                                              (entries s1)\<rparr>)
               else (Inl CACHE_SAVE_FAILED, s1))"

definition loadSubtitleCache ::
  "browser \<Rightarrow> int \<Rightarrow> jsstring \<Rightarrow> idb \<Rightarrow> (idb_error + SubtitleCache option) \<times> idb" where
  "loadSubtitleCache b now vid s =
     (if \<not> isAvailable b then (Inr None, s)
      else case initialize b s of
        (Inl e, s1) \<Rightarrow> (Inl e, s1)
      | (Inr _, s1) \<Rightarrow>
          if \<not> db s1 then (Inr None, s1)
          else if \<not> get_ok b then (Inr None, s1)
          else (case fmlookup (entries s1) vid of
                  None \<Rightarrow> (Inr None, s1)
                | Some cache \<Rightarrow>
                    if expiresAt cache < now
                    then (if delete_ok b
                          then (Inr None, s1\<lparr>entries := fmdrop vid (entries s1)\<rparr>)
                          else (Inr None, s1))
                    else (Inr (Some cache), s1)))"

text \<open>
  The index \<open>by-expires\<close> queried with \<open>IDBKeyRange.upperBound(now)\<close>: the bound is
  closed, so the range holds the entries with \<open>expiresAt \<le> now\<close>.
\<close>

definition in_upperBound :: "int \<Rightarrow> (jsstring, SubtitleCache) fmap \<Rightarrow> jsstring \<Rightarrow> bool" where
  "in_upperBound now m k \<longleftrightarrow>
     (case fmlookup m k of None \<Rightarrow> False | Some c \<Rightarrow> expiresAt c \<le> now)"

text \<open>
  The cursor loop deletes every entry of the range inside one transaction; a request
  that fails aborts the transaction, which undoes the deletes made so far.
\<close>

definition clearExpiredCache :: "browser \<Rightarrow> int \<Rightarrow> idb \<Rightarrow> (idb_error + nat) \<times> idb" where
  "clearExpiredCache b now s =
     (if \<not> isAvailable b then (Inr 0, s)
      else case initialize b s of
        (Inl e, s1) \<Rightarrow> (Inl e, s1)
      | (Inr _, s1) \<Rightarrow>
          if \<not> db s1 then (Inr 0, s1)
          else if \<not> (tx_ok b \<and> delete_ok b) then (Inr 0, s1)
          else (Inr (fcard (fmdom (fmfilter (in_upperBound now (entries s1)) (entries s1)))),
                s1\<lparr>entries := fmfilter (\<lambda>k. \<not> in_upperBound now (entries s1) k) (entries s1)\<rparr>))"

definition clearVideoCache :: "browser \<Rightarrow> jsstring \<Rightarrow> idb \<Rightarrow> (idb_error + unit) \<times> idb" where
  "clearVideoCache b vid s =
     (if \<not> isAvailable b then (Inr (), s)
      else case initialize b s of
        (Inl e, s1) \<Rightarrow> (Inl e, s1)
      | (Inr _, s1) \<Rightarrow>
          if \<not> db s1 then (Inr (), s1)
          else if delete_ok b then (Inr (), s1\<lparr>entries := fmdrop vid (entries s1)\<rparr>)
          else (Inr (), s1))"

definition clearAllCache :: "browser \<Rightarrow> idb \<Rightarrow> (idb_error + unit) \<times> idb" where
  "clearAllCache b s =
     (if \<not> isAvailable b then (Inr (), s)
      else case initialize b s of
        (Inl e, s1) \<Rightarrow> (Inl e, s1)
      | (Inr _, s1) \<Rightarrow>
          if \<not> db s1 then (Inr (), s1)
          else if clear_ok b then (Inr (), s1\<lparr>entries := fmempty\<rparr>)
          else (Inr (), s1))"

record cache_stats =
  totalEntries :: nat
  expiredEntries :: nat

definition getCacheStats :: "browser \<Rightarrow> int \<Rightarrow> idb \<Rightarrow> (idb_error + cache_stats) \<times> idb" where
  "getCacheStats b now s =
     (if \<not> isAvailable b then (Inr \<lparr>totalEntries = 0, expiredEntries = 0\<rparr>, s)
      else case initialize b s of
        (Inl e, s1) \<Rightarrow> (Inl e, s1)
      | (Inr _, s1) \<Rightarrow>
          if \<not> db s1 then (Inr \<lparr>totalEntries = 0, expiredEntries = 0\<rparr>, s1)
          else if \<not> tx_ok b then (Inr \<lparr>totalEntries = 0, expiredEntries = 0\<rparr>, s1)
          else (Inr \<lparr>totalEntries = fcard (fmdom (entries s1)),
                     expiredEntries =
                       fcard (fmdom (fmfilter (in_upperBound now (entries s1)) (entries s1)))\<rparr>,
                s1))"


section \<open>services/speechRecognition.ts\<close>

record SpeechRecognitionOptions =
  o_videoId :: jsstring
  audioUrl :: jsstring
  o_language :: "jsstring option"
  forceRefresh :: "bool option"

record SpeechRecognitionResult =
  r_videoId :: jsstring
  r_subtitles :: jsval
  r_source :: cache_source
  r_language :: jsstring
  cached :: bool

text \<open>The body of a \<open>POST\<close> to \<open>/api/bilibili/speech/transcribe\<close>.\<close>

record transcribe_request =
  q_videoId :: jsstring
  q_audioUrl :: jsstring
  q_language :: jsstring

text \<open>
  What the service acts on: the cache, and the log of the requests it has sent to the
  transcription route (one entry for each call of \<open>fetch\<close>).
\<close>

record world =
  store :: idb
  requests :: "transcribe_request list"

text \<open>
  A response: its status and its body as \<open>response.json()\<close> reads it (\<open>None\<close>: the
  body is not JSON and \<open>json()\<close> rejects). Of an error body only the member \<open>error\<close> is
  read here; \<open>message\<close> and \<open>details\<close> are display texts and are left out, as is the
  \<open>message\<close> of the error that is thrown.
\<close>

record http_response =
  status :: nat
  json :: "jsval option"

definition ok :: "http_response \<Rightarrow> bool" where
  "ok r \<longleftrightarrow> 200 \<le> status r \<and> status r \<le> 299"

datatype fetch_outcome = Rejects | Responds http_response

text \<open>
  What \<open>transcribeVideo\<close> throws: the \<open>Error\<close> it builds for a response that is not ok,
  with the fields \<open>code\<close>, \<open>status\<close> and \<open>retryable\<close> it attaches, or an exception of the
  runtime, which has none of these fields.
\<close>

datatype transcribe_error =
    ApiError jsval nat bool
  | Thrown js_exn

definition getCachedResult :: "browser \<Rightarrow> int \<Rightarrow> jsstring \<Rightarrow> idb \<Rightarrow> jsval \<times> idb" where
  "getCachedResult b now vid s =
     (case loadSubtitleCache b now vid s of
        (Inl e, s1) \<Rightarrow> (JNull, s1)
      | (Inr None, s1) \<Rightarrow> (JNull, s1)
      | (Inr (Some cache), s1) \<Rightarrow>
          if source cache = SpeechRecognition then (subtitles cache, s1) else (JNull, s1))"

definition hasCachedResult :: "browser \<Rightarrow> int \<Rightarrow> jsstring \<Rightarrow> idb \<Rightarrow> bool \<times> idb" where
  "hasCachedResult b now vid s =
     (case loadSubtitleCache b now vid s of
        (Inl e, s1) \<Rightarrow> (False, s1)
      | (Inr None, s1) \<Rightarrow> (False, s1)
      | (Inr (Some cache), s1) \<Rightarrow> (source cache = SpeechRecognition, s1))"

text \<open>
  \<open>cacheResult\<close> catches whatever \<open>saveSubtitleCache\<close> throws and only logs it. The two
  stamps it puts into the entry are overwritten by \<open>saveSubtitleCache\<close>.
\<close>

definition cacheResult :: "browser \<Rightarrow> int \<Rightarrow> jsstring \<Rightarrow> jsval \<Rightarrow> jsstring \<Rightarrow> idb \<Rightarrow> idb" where
  "cacheResult b now vid subs lang s =
     (case saveSubtitleCache b now
             \<lparr>c_videoId = vid, subtitles = subs, cachedAt = now,
              expiresAt = now + 30 * 24 * 60 * 60 * 1000, source = SpeechRecognition,
              c_language = lang\<rparr> s of
        (Inl e, s1) \<Rightarrow> s1
      | (Inr _, s1) \<Rightarrow> s1)"

definition language_of :: "SpeechRecognitionOptions \<Rightarrow> jsstring" where
  "language_of options = (case o_language options of None \<Rightarrow> ascii ''zh'' | Some l \<Rightarrow> l)"

definition forceRefresh_of :: "SpeechRecognitionOptions \<Rightarrow> bool" where
  "forceRefresh_of options = (case forceRefresh options of None \<Rightarrow> False | Some f \<Rightarrow> f)"

definition request_of :: "SpeechRecognitionOptions \<Rightarrow> transcribe_request" where
  "request_of options =
     \<lparr>q_videoId = o_videoId options, q_audioUrl = audioUrl options,
      q_language = language_of options\<rparr>"

text \<open>
  \<open>transcribeVideo\<close> up to its \<open>await fetch(...)\<close>: either it returns the cached result,
  or it has sent the request and waits for the answer (\<open>None\<close>).
\<close>

definition transcribe_begin ::
  "browser \<Rightarrow> int \<Rightarrow> SpeechRecognitionOptions \<Rightarrow> world \<Rightarrow> SpeechRecognitionResult option \<times> world" where
  "transcribe_begin b now options w =
     (if \<not> forceRefresh_of options
      then (case getCachedResult b now (o_videoId options) (store w) of
              (cached_subs, s1) \<Rightarrow>
                if truthy cached_subs
                then (Some \<lparr>r_videoId = o_videoId options, r_subtitles = cached_subs,
                             r_source = SpeechRecognition, r_language = language_of options,
                             cached = True\<rparr>,
                      w\<lparr>store := s1\<rparr>)
                else (None, w\<lparr>store := s1, requests := requests w @ [request_of options]\<rparr>))
      else (None, w\<lparr>requests := requests w @ [request_of options]\<rparr>))"

text \<open>\<open>transcribeVideo\<close> from the moment the \<open>fetch\<close> settles.\<close>

definition transcribe_complete ::
  "browser \<Rightarrow> int \<Rightarrow> SpeechRecognitionOptions \<Rightarrow> fetch_outcome \<Rightarrow> world \<Rightarrow>
     (transcribe_error + SpeechRecognitionResult) \<times> world" where
  "transcribe_complete b now options outcome w =
     (case outcome of
        Rejects \<Rightarrow> (Inl (Thrown TypeError), w)
      | Responds response \<Rightarrow>
          if \<not> ok response
          then (case json response of
                  None \<Rightarrow> (Inl (Thrown SyntaxError), w)
                | Some errorData \<Rightarrow>
                    (case get_prop errorData (ascii ''error'') of
                       Inl e \<Rightarrow> (Inl (Thrown e), w)
                     | Inr code \<Rightarrow>
                         (Inl (ApiError code (status response)
                                 (status response \<noteq> 501 \<and> status response \<noteq> 500)), w)))
          else (case json response of
                  None \<Rightarrow> (Inl (Thrown SyntaxError), w)
                | Some data \<Rightarrow>
                    (case get_prop data (ascii ''subtitles'') of
                       Inl e \<Rightarrow> (Inl (Thrown e), w)
                     | Inr subs \<Rightarrow>
                         (Inr \<lparr>r_videoId = o_videoId options, r_subtitles = subs,
                               r_source = SpeechRecognition, r_language = language_of options,
                               cached = False\<rparr>,
                          w\<lparr>store := cacheResult b now (o_videoId options) subs
                                        (language_of options) (store w)\<rparr>))))"

text \<open>
  A whole call that nothing interleaves with: \<open>now1\<close> is the clock at the cache read,
  \<open>now2\<close> at the cache write, \<open>outcome\<close> what the \<open>fetch\<close> of this call yields.
\<close>

definition transcribeVideo ::
  "browser \<Rightarrow> int \<Rightarrow> int \<Rightarrow> SpeechRecognitionOptions \<Rightarrow> fetch_outcome \<Rightarrow> world \<Rightarrow>
     (transcribe_error + SpeechRecognitionResult) \<times> world" where
  "transcribeVideo b now1 now2 options outcome w =
     (case transcribe_begin b now1 options w of
        (Some result, w1) \<Rightarrow> (Inr result, w1)
      | (None, w1) \<Rightarrow> transcribe_complete b now2 options outcome w1)"

section \<open>app/api/bilibili/speech/transcribe/route.ts\<close>

text \<open>
  What the \<open>try\<close> block of \<open>POST\<close> can throw: an \<open>OpenAI.APIError\<close> with its optional
  status, or anything else.
\<close>

datatype route_exn = OpenAI_APIError "nat option" | OtherError

definition error_response :: "nat \<Rightarrow> string \<Rightarrow> http_response" where
  "error_response st code = \<lparr>status = st, json = Some (JObj [(ascii ''error'', JStr (ascii code))])\<rparr>"

definition caught :: "route_exn \<Rightarrow> http_response" where
  "caught e =
     (case e of
        OpenAI_APIError st \<Rightarrow>
          error_response (case st of None \<Rightarrow> 500 | Some n \<Rightarrow> if n = 0 then 500 else n)
            ''API_ERROR''
      | OtherError \<Rightarrow> error_response 500 ''TRANSCRIPTION_FAILED'')"

text \<open>
  The body the service sends, \<open>JSON.stringify({videoId, audioUrl, language})\<close>, as
  \<open>request.json()\<close> reads it back.
\<close>

definition request_json :: "transcribe_request \<Rightarrow> jsval" where
  "request_json q =
     JObj [(ascii ''videoId'', JStr (q_videoId q)), (ascii ''audioUrl'', JStr (q_audioUrl q)),
           (ascii ''language'', JStr (q_language q))]"

text \<open>
  \<open>POST\<close>: \<open>body_json\<close> is the parsed body of the request (\<open>None\<close>: \<open>request.json()\<close>
  throws), \<open>api_key\<close> whether \<open>process.env.OPENAI_API_KEY\<close> is truthy when \<open>POST\<close> checks it, \<open>pipeline\<close> the outcome of
  downloading the audio, transcribing it and parsing the transcription.
\<close>

definition POST :: "jsval option \<Rightarrow> bool \<Rightarrow> route_exn + jsval \<Rightarrow> http_response" where
  "POST body_json api_key pipeline =
     (case body_json of
        None \<Rightarrow> caught OtherError
      | Some body \<Rightarrow>
          (case get_prop body (ascii ''videoId'') of
             Inl e \<Rightarrow> caught OtherError
           | Inr vid \<Rightarrow>
               if \<not> truthy vid then error_response 400 ''INVALID_PARAMS''
               else if \<not> api_key then error_response 500 ''API_ERROR''
               else (case pipeline of
                       Inl e \<Rightarrow> caught e
                     | Inr subs \<Rightarrow>
                         \<lparr>status = 200, json = Some (JObj [(ascii ''subtitles'', subs)])\<rparr>)))"

section \<open>app/video/[videoId]/page.tsx\<close>

datatype sr_status = Idle | Pending | Processing | Completed | Failed

datatype subtitle_error =
  NO_SUBTITLES | SUBTITLE_FETCH_FAILED | SUBTITLE_PARSE_ERROR | INVALID_PARAMS

text \<open>
  The state of \<open>VideoPage\<close> that its effects read and write: the \<open>videoId\<close> of the route,
  what the metadata fetch and \<open>useSubtitles\<close> hand in (\<open>video\<close>: the \<open>id\<close> of the loaded
  video, \<open>None\<close> while \<open>video\<close> is null), the four state variables of the page
  (\<open>transcriptionError\<close>: it is not null), and the \<open>videoId\<close> passed to each call of
  \<open>speechRecognitionService.transcribeVideo\<close> made so far, in order.
\<close>

record page =
  route_videoId :: jsstring
  video :: "jsstring option"
  isSpeechRecognition :: bool
  subtitleError :: "subtitle_error option"
  speechRecognitionStatus :: sr_status
  isTranscribing :: bool
  transcriptionError :: bool
  hasAttemptedTranscription :: bool
  isNonRetryableError :: bool
  transcribe_calls :: "jsstring list"

text \<open>The effect, up to its \<open>await\<close>; the call is made for \<open>video.id\<close>.\<close>

definition triggerSpeechRecognition :: "page \<Rightarrow> page" where
  "triggerSpeechRecognition p =
     (case video p of
        None \<Rightarrow> p
      | Some video_id \<Rightarrow>
          if \<not> isSpeechRecognition p \<or> isTranscribing p
             \<or> speechRecognitionStatus p = Completed \<or> hasAttemptedTranscription p
             \<or> isNonRetryableError p
          then p
          else if subtitleError p = Some NO_SUBTITLES \<and> speechRecognitionStatus p = Pending
          then p\<lparr>isTranscribing := True, transcriptionError := False,
                  hasAttemptedTranscription := True,
                  transcribe_calls := transcribe_calls p @ [video_id]\<rparr>
          else p)"

text \<open>\<open>err.retryable === false || err.status === 501\<close>\<close>

fun nonRetryable :: "transcribe_error \<Rightarrow> bool" where
  "nonRetryable (ApiError code st retryable) = (retryable = False \<or> st = 501)"
| "nonRetryable (Thrown e) = False"

text \<open>The rest of the effect, once the call has settled: \<open>catch\<close> and \<open>finally\<close>.\<close>

definition transcription_settled :: "transcribe_error option \<Rightarrow> page \<Rightarrow> page" where
  "transcription_settled failure p =
     (case failure of
        None \<Rightarrow> p\<lparr>isTranscribing := False\<rparr>
      | Some err \<Rightarrow>
          (if nonRetryable err then p\<lparr>isNonRetryableError := True\<rparr> else p)
            \<lparr>transcriptionError := True, isTranscribing := False\<rparr>)"

definition handleRetryTranscription :: "page \<Rightarrow> page" where
  "handleRetryTranscription p = p\<lparr>hasAttemptedTranscription := False, transcriptionError := False\<rparr>"

definition handleDismissError :: "page \<Rightarrow> page" where
  "handleDismissError p = p\<lparr>transcriptionError := False\<rparr>"

text \<open>
  The \<open>videoId\<close> of the route changes and the effect on \<open>[videoId]\<close> runs: it resets three
  state variables. \<open>video\<close> and the values of \<open>useSubtitles\<close> stay as they are until the
  metadata of the new video has been fetched.
\<close>

definition reset_on_video_change :: "jsstring \<Rightarrow> page \<Rightarrow> page" where
  "reset_on_video_change new_id p =
     p\<lparr>route_videoId := new_id, hasAttemptedTranscription := False,
       transcriptionError := False, isNonRetryableError := False\<rparr>"

text \<open>
  What can happen to the page: the transcription effect runs, the metadata fetch or
  \<open>useSubtitles\<close> deliver new values, the pending call settles, the user clicks retry or
  dismisses the error, the \<open>videoId\<close> of the route changes.
\<close>

datatype event =
    EffectRuns
  | HookUpdate "jsstring option" bool "subtitle_error option" sr_status
  | Settled "transcribe_error option"
  | RetryClicked
  | DismissClicked
  | VideoChanged jsstring

fun is_video_change :: "event \<Rightarrow> bool" where
  "is_video_change (VideoChanged new_id) = True"
| "is_video_change ev = False"

fun step :: "page \<Rightarrow> event \<Rightarrow> page" where
  "step p EffectRuns = triggerSpeechRecognition p"
| "step p (HookUpdate v sr se st) =
     p\<lparr>video := v, isSpeechRecognition := sr, subtitleError := se,
       speechRecognitionStatus := st\<rparr>"
| "step p (Settled failure) = transcription_settled failure p"
| "step p RetryClicked = handleRetryTranscription p"
| "step p DismissClicked = handleDismissError p"
| "step p (VideoChanged new_id) = reset_on_video_change new_id p"

definition run :: "page \<Rightarrow> event list \<Rightarrow> page" where
  "run p evs = foldl step p evs"

section \<open>The rules of the parser, as the specification words them\<close>

text \<open>The property of an item, \<open>undefined\<close> when it is absent.\<close>

definition field :: "jsval \<Rightarrow> string \<Rightarrow> jsval" where
  "field item k = (case get_prop item (ascii k) of Inl e \<Rightarrow> JUndefined | Inr v \<Rightarrow> v)"

definition numeric :: "jsval \<Rightarrow> bool" where
  "numeric v = (case v of JNum n \<Rightarrow> True | _ \<Rightarrow> False)"

definition is_string :: "jsval \<Rightarrow> bool" where
  "is_string v = (case v of JStr s \<Rightarrow> True | _ \<Rightarrow> False)"

definition num_le :: "jsval \<Rightarrow> jsval \<Rightarrow> bool" where
  "num_le v w = (case (v, w) of (JNum a, JNum b) \<Rightarrow> js_le a b | _ \<Rightarrow> False)"

definition num_lt :: "jsval \<Rightarrow> jsval \<Rightarrow> bool" where
  "num_lt v w = (case (v, w) of (JNum a, JNum b) \<Rightarrow> js_lt a b | _ \<Rightarrow> False)"

definition trims_to_empty :: "jsval \<Rightarrow> bool" where
  "trims_to_empty v = (case v of JStr s \<Rightarrow> trim s = [] | _ \<Rightarrow> False)"

text \<open>
  The items to drop, in the words of the specification: \<open>from\<close> or \<open>to\<close> is not numeric,
  or \<open>to \<le> from\<close>, or \<open>from < 0\<close>, or \<open>content\<close> trims to empty.
\<close>

definition claim_drops :: "jsval \<Rightarrow> bool" where
  "claim_drops item \<longleftrightarrow>
     \<not> numeric (field item ''from'') \<or> \<not> numeric (field item ''to'')
     \<or> num_le (field item ''to'') (field item ''from'')
     \<or> num_lt (field item ''from'') (JNum (Fin 0))
     \<or> trims_to_empty (field item ''content'')"

text \<open>The same list with one more entry: \<open>content\<close> is not a string.\<close>

definition parser_drops :: "jsval \<Rightarrow> bool" where
  "parser_drops item \<longleftrightarrow> claim_drops item \<or> \<not> is_string (field item ''content'')"

text \<open>An item whose properties can be read: anything but \<open>null\<close> and \<open>undefined\<close>.\<close>

definition readable :: "jsval \<Rightarrow> bool" where
  "readable item \<longleftrightarrow> item \<noteq> JNull \<and> item \<noteq> JUndefined"


text \<open>
  Segment \<open>s\<close> is what the parser emits for the surviving item \<open>item\<close> at position \<open>k\<close>
  among the survivors.
\<close>

definition emitted :: "jsstring \<Rightarrow> nat \<Rightarrow> jsval \<Rightarrow> SubtitleSegment \<Rightarrow> bool" where
  "emitted vid k item s \<longleftrightarrow>
     index s = k \<and> id' s = ascii ''subtitle-'' @ decimal k \<and> videoId s = vid
     \<and> field item ''from'' = JNum (startTime s) \<and> field item ''to'' = JNum (endTime s)
     \<and> (case field item ''content'' of JStr c \<Rightarrow> text' s = trim c | _ \<Rightarrow> False)
     \<and> language s = None"

definition is_array :: "jsval \<Rightarrow> bool" where
  "is_array v = (case v of JArr items \<Rightarrow> True | _ \<Rightarrow> False)"

section \<open>A store that works\<close>

text \<open>
  \<open>usable\<close>: IndexedDB exists and \<open>initialize\<close> succeeds, now or earlier. \<open>healthy\<close>: and
  every request on the open database succeeds. \<open>opened\<close> is the service after a
  successful \<open>initialize\<close>.
\<close>

definition usable :: "browser \<Rightarrow> idb \<Rightarrow> bool" where
  "usable b s \<longleftrightarrow>
     isAvailable b \<and>
     (case initPromise s of
        None \<Rightarrow> open_ok b
      | Some Fulfilled \<Rightarrow> db s
      | Some Rejected \<Rightarrow> False)"

definition healthy :: "browser \<Rightarrow> idb \<Rightarrow> bool" where
  "healthy b s \<longleftrightarrow> usable b s \<and> get_ok b \<and> put_ok b \<and> delete_ok b \<and> clear_ok b \<and> tx_ok b"

definition opened :: "idb \<Rightarrow> idb" where
  "opened s = s\<lparr>db := True, initPromise := Some Fulfilled\<rparr>"

definition entry_count :: "idb \<Rightarrow> nat" where
  "entry_count s = fcard (fmdom (entries s))"

text \<open>What \<open>saveSubtitleCache\<close> stores for \<open>cache\<close> at time \<open>now\<close>.\<close>

definition stamped :: "int \<Rightarrow> SubtitleCache \<Rightarrow> SubtitleCache" where
  "stamped now cache = cache\<lparr>cachedAt := now, expiresAt := now + CACHE_TTL\<rparr>"

text \<open>The result of \<open>transcribeVideo\<close> and the entry it caches.\<close>

definition speech_result :: "SpeechRecognitionOptions \<Rightarrow> jsval \<Rightarrow> bool \<Rightarrow> SpeechRecognitionResult" where
  "speech_result options subs c =
     \<lparr>r_videoId = o_videoId options, r_subtitles = subs, r_source = SpeechRecognition,
      r_language = language_of options, cached = c\<rparr>"

definition speech_entry :: "SpeechRecognitionOptions \<Rightarrow> jsval \<Rightarrow> int \<Rightarrow> SubtitleCache" where
  "speech_entry options subs now =
     \<lparr>c_videoId = o_videoId options, subtitles = subs, cachedAt = now,
      expiresAt = now + CACHE_TTL, source = SpeechRecognition,
      c_language = language_of options\<rparr>"

section \<open>The classification of failures, as the specification words it\<close>



section \<open>Example values\<close>

definition seg :: "nat \<Rightarrow> real \<Rightarrow> real \<Rightarrow> SubtitleSegment" where
  "seg i a b =
     \<lparr>id' = ascii ''subtitle-'' @ decimal i, videoId = ascii ''BV1'', startTime = Fin a,
      endTime = Fin b, text' = ascii ''hi'', index = i, language = None\<rparr>"

text \<open>A raw record \<open>{from: a, to: b, content: c}\<close>.\<close>

definition raw_item :: "real \<Rightarrow> real \<Rightarrow> jsval \<Rightarrow> jsval" where
  "raw_item a b c =
     JObj [(ascii ''from'', JNum (Fin a)), (ascii ''to'', JNum (Fin b)), (ascii ''content'', c)]"

text \<open>
  A browser where everything works and one without IndexedDB; a service that has never
  been used, and one that is open and holds one entry; an entry for a video that expires
  at \<open>t\<close>.
\<close>

definition good_browser :: browser where
  "good_browser =
     \<lparr>has_window = True, has_indexedDB = True, open_ok = True, get_ok = True, put_ok = True,
      delete_ok = True, clear_ok = True, tx_ok = True\<rparr>"

definition no_indexedDB :: browser where
  "no_indexedDB = good_browser\<lparr>has_indexedDB := False\<rparr>"

definition fresh :: idb where
  "fresh = \<lparr>db = False, initPromise = None, entries = fmempty\<rparr>"

definition entry :: "string \<Rightarrow> int \<Rightarrow> SubtitleCache" where
  "entry v t =
     \<lparr>c_videoId = ascii v, subtitles = JArr [JObj [(ascii ''text'', JStr (ascii ''hi''))]],
      cachedAt = t - CACHE_TTL, expiresAt = t, source = SpeechRecognition,
      c_language = ascii ''zh''\<rparr>"

definition holding :: "SubtitleCache \<Rightarrow> idb" where
  "holding c = \<lparr>db = True, initPromise = Some Fulfilled, entries = fmupd (c_videoId c) c fmempty\<rparr>"

text \<open>
  A world with no request sent yet, the options of a call, and the two segments of the
  scenario of the specification.
\<close>

definition world_of :: "idb \<Rightarrow> world" where
  "world_of s = \<lparr>store = s, requests = []\<rparr>"

definition options_for :: "string \<Rightarrow> bool option \<Rightarrow> SpeechRecognitionOptions" where
  "options_for v f =
     \<lparr>o_videoId = ascii v, audioUrl = ascii ''https://bilibili.com/video/'' @ ascii v @ ascii ''/audio'',
      o_language = Some (ascii ''zh''), forceRefresh = f\<rparr>"

definition two_segments :: jsval where
  "two_segments =
     JArr [JObj [(ascii ''startTime'', JNum (Fin 0)), (ascii ''endTime'', JNum (Fin 5)),
                 (ascii ''text'', JStr (ascii ''hi''))],
           JObj [(ascii ''startTime'', JNum (Fin 5)), (ascii ''endTime'', JNum (Fin 10)),
                 (ascii ''text'', JStr (ascii ''there''))]]"

text \<open>A browser whose store rejects every write.\<close>

definition quota_full :: browser where
  "quota_full = good_browser\<lparr>put_ok := False\<rparr>"



text \<open>The page of video \<open>BV1\<close>, which has no native subtitles, before any attempt.\<close>

definition no_subtitles_page :: page where
  "no_subtitles_page =
     \<lparr>route_videoId = ascii ''BV1'', video = Some (ascii ''BV1''), isSpeechRecognition = True,
      subtitleError = Some NO_SUBTITLES, speechRecognitionStatus = Pending,
      isTranscribing = False, transcriptionError = False, hasAttemptedTranscription = False,
      isNonRetryableError = False, transcribe_calls = []\<rparr>"

text \<open>The error the service throws for an answer with status 500.\<close>

definition error_500 :: transcribe_error where
  "error_500 = ApiError (JStr (ascii ''API_ERROR'')) 500 False"

section \<open>The active segment\<close>

text \<open>
  C1. \<open>findActiveSubtitle\<close> is a function of the time and the list alone. It returns the
  first segment in list order with \<open>startTime \<le> t < endTime\<close> (the segment at the least
  index that satisfies the condition), and null exactly when no segment of the list
  satisfies it. This holds for every list, so for the lists sorted by \<open>startTime\<close>.
\<close>

theorem findActiveSubtitle_first_match:
  "(findActiveSubtitle t subs = None \<longleftrightarrow>
      (\<forall>s \<in> set subs. \<not> (js_le (startTime s) t \<and> js_lt t (endTime s))))
   \<and> (\<forall>s. findActiveSubtitle t subs = Some s \<longleftrightarrow>
        (\<exists>i < length subs. subs ! i = s
           \<and> js_le (startTime s) t \<and> js_lt t (endTime s)
           \<and> (\<forall>j < i. \<not> (js_le (startTime (subs ! j)) t \<and> js_lt t (endTime (subs ! j))))))"
proof (intro conjI allI)
  show "findActiveSubtitle t subs = None \<longleftrightarrow>
      (\<forall>s \<in> set subs. \<not> (js_le (startTime s) t \<and> js_lt t (endTime s)))"
    by (auto simp: findActiveSubtitle_def is_active_def find_None_iff)
next
  fix s
  show "findActiveSubtitle t subs = Some s \<longleftrightarrow>
        (\<exists>i < length subs. subs ! i = s
           \<and> js_le (startTime s) t \<and> js_lt t (endTime s)
           \<and> (\<forall>j < i. \<not> (js_le (startTime (subs ! j)) t \<and> js_lt t (endTime (subs ! j)))))"
    unfolding findActiveSubtitle_def find_Some_iff is_active_def by auto
qed

text \<open>
  Two overlapping segments, \<open>[0, 5)\<close> and \<open>[2, 8)\<close>: at 3 both match and the first is
  returned, at 6 only the second matches, at 8 none does.
\<close>

theorem findActiveSubtitle_first_match_witness:
  "findActiveSubtitle (Fin 3) [seg 0 0 5, seg 1 2 8] = Some (seg 0 0 5)
   \<and> findActiveSubtitle (Fin 6) [seg 0 0 5, seg 1 2 8] = Some (seg 1 2 8)
   \<and> findActiveSubtitle (Fin 8) [seg 0 0 5, seg 1 2 8] = None"
proof -
  let ?subs = "[seg 0 0 5, seg 1 2 8]"
  note some = findActiveSubtitle_first_match [THEN conjunct2, rule_format, THEN iffD2]
  note none = findActiveSubtitle_first_match [THEN conjunct1, THEN iffD2]
  have a: "findActiveSubtitle (Fin 3) ?subs = Some (seg 0 0 5)"
    by (rule some, rule exI [of _ 0]) (simp add: seg_def)
  have b: "findActiveSubtitle (Fin 6) ?subs = Some (seg 1 2 8)"
    by (rule some, rule exI [of _ 1]) (simp add: seg_def)
  have c: "findActiveSubtitle (Fin 8) ?subs = None"
    by (rule none) (simp add: seg_def)
  show ?thesis using a b c by simp
qed

section \<open>The parser\<close>

lemma get_prop_field: "readable item \<Longrightarrow> get_prop item (ascii k) = Inr (field item k)"
  by (cases item) (simp_all add: field_def readable_def)

lemma filter_item_readable:
  assumes "readable item"
  shows "filter_item item = Inr (\<not> parser_drops item)"
proof -
  have core: "(case (f, t, c) of
          (JNum a, JNum b, JStr s) \<Rightarrow>
            if js_lt a (Fin 0) \<or> js_le b a then Inr False
            else if length (trim s) = 0 then Inr False
            else Inr True
        | _ \<Rightarrow> Inr False) =
        (Inr (\<not> (\<not> numeric f \<or> \<not> numeric t \<or> num_le t f \<or> num_lt f (JNum (Fin 0))
                  \<or> trims_to_empty c \<or> \<not> is_string c)) :: js_exn + bool)" for f t c
    by (cases f; simp add: numeric_def; cases t; simp; cases c;
        simp add: is_string_def num_le_def num_lt_def trims_to_empty_def)
  show ?thesis
    unfolding filter_item_def parser_drops_def claim_drops_def
    by (simp only: get_prop_field [OF assms] sum.case core) simp
qed

lemma filter_items_readable:
  "\<forall>x \<in> set items. readable x \<Longrightarrow>
     filter_items items = Inr (filter (\<lambda>x. \<not> parser_drops x) items)"
  by (induction items) (simp_all add: filter_item_readable)

lemma map_item_kept:
  assumes "readable item" and "\<not> parser_drops item"
  shows "\<exists>a b s. field item ''from'' = JNum a \<and> field item ''to'' = JNum b
      \<and> field item ''content'' = JStr s
      \<and> map_item vid item i =
          Inr \<lparr>id' = ascii ''subtitle-'' @ decimal i, videoId = vid, startTime = a,
               endTime = b, text' = trim s, index = i, language = None\<rparr>"
proof -
  from assms(2) obtain a where a: "field item ''from'' = JNum a"
    by (cases "field item ''from''") (simp_all add: parser_drops_def claim_drops_def numeric_def)
  from assms(2) obtain b where b: "field item ''to'' = JNum b"
    by (cases "field item ''to''") (simp_all add: parser_drops_def claim_drops_def numeric_def)
  from assms(2) obtain s where s: "field item ''content'' = JStr s"
    by (cases "field item ''content''") (simp_all add: parser_drops_def is_string_def)
  show ?thesis
    unfolding map_item_def by (simp add: get_prop_field [OF assms(1)] a b s)
qed

lemma map_item_emitted:
  "readable item \<Longrightarrow> \<not> parser_drops item \<Longrightarrow>
   \<exists>s. map_item vid item i = Inr s \<and> emitted vid i item s"
  using map_item_kept [of item vid i] by (auto simp: emitted_def)

lemma map_items_kept:
  "\<forall>x \<in> set kept. readable x \<and> \<not> parser_drops x \<Longrightarrow>
   \<exists>segs. map_items vid i kept = Inr segs \<and> length segs = length kept
      \<and> (\<forall>k < length kept. emitted vid (i + k) (kept ! k) (segs ! k))"
proof (induction kept arbitrary: i)
  case Nil
  then show ?case by simp
next
  case (Cons x xs)
  from Cons.prems obtain s where s: "map_item vid x i = Inr s" "emitted vid i x s"
    using map_item_emitted [of x vid i] by auto
  from Cons.prems Cons.IH [of "Suc i"] obtain segs where
    segs: "map_items vid (Suc i) xs = Inr segs" "length segs = length xs"
      "\<forall>k < length xs. emitted vid (Suc i + k) (xs ! k) (segs ! k)"
    by auto
  have "\<forall>k < length (x # xs). emitted vid (i + k) ((x # xs) ! k) ((s # segs) ! k)"
  proof (intro allI impI)
    fix k assume "k < length (x # xs)"
    then show "emitted vid (i + k) ((x # xs) ! k) ((s # segs) ! k)"
      using s(2) segs(3) by (cases k) auto
  qed
  then show ?case using s(1) segs(1,2) by simp
qed

text \<open>
  C6, amended. For every array none of whose items is \<open>null\<close> or \<open>undefined\<close>,
  \<open>parseSubtitles\<close> raises no error and drops exactly the items where \<open>from\<close> or \<open>to\<close> is
  not a number, or \<open>to \<le> from\<close>, or \<open>from < 0\<close>, or \<open>content\<close> is not a string, or
  \<open>content\<close> trims to empty. The survivors are emitted in input order: the \<open>k\<close>-th segment
  comes from the \<open>k\<close>-th survivor, has \<open>index = k\<close>, \<open>id = "subtitle-k"\<close>, the times of the
  item and its trimmed content. An input that is not an array yields the empty list.
\<close>

theorem parseSubtitles_drops_invalid_items:
  "((\<forall>x \<in> set items. readable x) \<longrightarrow>
     (\<exists>segs. parseSubtitles (JArr items) vid = Inr segs
        \<and> length segs = length (filter (\<lambda>x. \<not> parser_drops x) items)
        \<and> (\<forall>k < length segs.
              emitted vid k (filter (\<lambda>x. \<not> parser_drops x) items ! k) (segs ! k))))
   \<and> (\<not> is_array raw \<longrightarrow> parseSubtitles raw vid = Inr [])"
proof (intro conjI impI)
  assume r: "\<forall>x \<in> set items. readable x"
  let ?kept = "filter (\<lambda>x. \<not> parser_drops x) items"
  have f: "filter_items items = Inr ?kept"
    using r by (rule filter_items_readable)
  have "\<forall>x \<in> set ?kept. readable x \<and> \<not> parser_drops x"
    using r by simp
  from map_items_kept [OF this, of vid 0] obtain segs where
    "map_items vid 0 ?kept = Inr segs" "length segs = length ?kept"
    "\<forall>k < length ?kept. emitted vid (0 + k) (?kept ! k) (segs ! k)"
    by blast
  then show "\<exists>segs. parseSubtitles (JArr items) vid = Inr segs
        \<and> length segs = length ?kept
        \<and> (\<forall>k < length segs. emitted vid k (?kept ! k) (segs ! k))"
    using f by (simp add: parseSubtitles_def)
next
  assume "\<not> is_array raw"
  then show "parseSubtitles raw vid = Inr []"
    by (cases raw) (simp_all add: is_array_def parseSubtitles_def)
qed

lemma example_fields:
  "field (raw_item a b c) ''from'' = JNum (Fin a)"
  "field (raw_item a b c) ''to'' = JNum (Fin b)"
  "field (raw_item a b c) ''content'' = c"
  by (simp_all add: field_def raw_item_def ascii_def)

lemma example_drops:
  "\<not> parser_drops (raw_item 0 2 (JStr (ascii ''a'')))"
  "parser_drops (raw_item 5 3 (JStr (ascii ''b'')))"
  "parser_drops (raw_item 6 8 (JStr (ascii ''  '')))"
  by (simp_all add: parser_drops_def claim_drops_def example_fields numeric_def num_le_def
      num_lt_def trims_to_empty_def is_string_def)
     (simp_all add: trim_def js_whitespace_def ascii_def)

text \<open>
  The example of the specification: of \<open>{0, 2, "a"}\<close>, \<open>{5, 3, "b"}\<close> and \<open>{6, 8, "  "}\<close>
  only the first survives, as segment 0 with text \<open>"a"\<close>; an object in place of the array
  gives the empty list.
\<close>

theorem parseSubtitles_drops_invalid_items_witness:
  "parseSubtitles
     (JArr [raw_item 0 2 (JStr (ascii ''a'')), raw_item 5 3 (JStr (ascii ''b'')),
            raw_item 6 8 (JStr (ascii ''  ''))]) (ascii ''BV1'')
   = Inr [\<lparr>id' = ascii ''subtitle-0'', videoId = ascii ''BV1'', startTime = Fin 0,
           endTime = Fin 2, text' = ascii ''a'', index = 0, language = None\<rparr>]
   \<and> parseSubtitles (JObj []) (ascii ''BV1'') = Inr []"
proof -
  let ?items = "[raw_item 0 2 (JStr (ascii ''a'')), raw_item 5 3 (JStr (ascii ''b'')),
                 raw_item 6 8 (JStr (ascii ''  ''))]"
  note inst = parseSubtitles_drops_invalid_items [of ?items "ascii ''BV1''" "JObj []"]
  have kept: "filter (\<lambda>x. \<not> parser_drops x) ?items = [raw_item 0 2 (JStr (ascii ''a''))]"
    by (simp add: example_drops)
  have "\<forall>x \<in> set ?items. readable x"
    by (simp add: readable_def raw_item_def)
  with inst kept obtain segs where
    segs: "parseSubtitles (JArr ?items) (ascii ''BV1'') = Inr segs" "length segs = 1"
      "emitted (ascii ''BV1'') 0 (raw_item 0 2 (JStr (ascii ''a''))) (segs ! 0)"
    by auto
  from segs(2) obtain s where s: "segs = [s]"
    by (cases segs) auto
  have "s = \<lparr>id' = ascii ''subtitle-0'', videoId = ascii ''BV1'', startTime = Fin 0,
           endTime = Fin 2, text' = ascii ''a'', index = 0, language = None\<rparr>"
    using segs(3) unfolding s
    by (cases s) (simp add: emitted_def example_fields decimal.simps, simp add: trim_def js_whitespace_def ascii_def)
  moreover have "parseSubtitles (JObj []) (ascii ''BV1'') = Inr []"
    using inst by (simp add: is_array_def)
  ultimately show ?thesis using segs(1) s by simp
qed

text \<open>
  The claim as worded fails twice. It misses one rule of the code: the record
  \<open>{from: 0, to: 1, content: 5}\<close> satisfies none of the four conditions of the claim,
  and the parser drops it. And an array can make the parser raise an error: the filter
  reads \<open>item.from\<close> of every item, which throws on an item that is \<open>null\<close>.
\<close>

theorem parseSubtitles_claim_counterexample:
  "parseSubtitles (JArr [raw_item 0 1 (JNum (Fin 5))]) (ascii ''BV1'') = Inr []
   \<and> \<not> claim_drops (raw_item 0 1 (JNum (Fin 5)))
   \<and> parseSubtitles (JArr [raw_item 0 2 (JStr (ascii ''a'')), JNull]) (ascii ''BV1'')
       = Inl TypeError"
  by (simp add: parseSubtitles_def filter_item_def raw_item_def claim_drops_def field_def
      numeric_def num_le_def num_lt_def trims_to_empty_def ascii_def trim_def
      js_whitespace_def)

section \<open>The cache\<close>

lemma initialize_usable: "usable b s \<Longrightarrow> initialize b s = (Inr (), opened s)"
  by (auto simp: usable_def initialize_def opened_def split: option.splits promise_state.splits)

lemma usable_opened: "usable b s \<Longrightarrow> usable b (opened s)"
  by (simp add: usable_def opened_def)

lemma healthy_opened: "healthy b s \<Longrightarrow> healthy b (opened s)"
  by (simp add: healthy_def usable_opened)

lemma entries_opened [simp]: "entries (opened s) = entries s"
  by (simp add: opened_def)

lemma db_opened [simp]: "db (opened s)"
  by (simp add: opened_def)

lemma load_usable:
  assumes "usable b s" and "get_ok b"
  shows "loadSubtitleCache b now vid s =
     (case fmlookup (entries s) vid of
        None \<Rightarrow> (Inr None, opened s)
      | Some cache \<Rightarrow>
          if expiresAt cache < now
          then (if delete_ok b then (Inr None, (opened s)\<lparr>entries := fmdrop vid (entries s)\<rparr>)
                else (Inr None, opened s))
          else (Inr (Some cache), opened s))"
  using assms by (auto simp: loadSubtitleCache_def initialize_usable usable_def split: option.splits)

lemma save_usable:
  assumes "usable b s" and "put_ok b"
  shows "saveSubtitleCache b now cache s =
     (Inr (), (opened s)\<lparr>entries :=
        fmupd (c_videoId cache) (cache\<lparr>cachedAt := now, expiresAt := now + CACHE_TTL\<rparr>)
          (entries s)\<rparr>)"
  using assms by (simp add: saveSubtitleCache_def initialize_usable usable_def Let_def)

lemma stats_usable:
  assumes "usable b s" and "tx_ok b"
  shows "fst (getCacheStats b now s) =
     Inr \<lparr>totalEntries = entry_count s,
          expiredEntries = fcard (fmdom (fmfilter (in_upperBound now (entries s)) (entries s)))\<rparr>"
  using assms by (simp add: getCacheStats_def initialize_usable usable_def entry_count_def)

text \<open>
  The part of C3 that the code keeps: an entry with \<open>expiresAt < now\<close> is not returned, it
  is deleted, and the store holds one entry less.
\<close>

lemma load_expired_entry:
  assumes "healthy b s" and "fmlookup (entries s) vid = Some cache" and "expiresAt cache < now"
  shows "fst (loadSubtitleCache b now vid s) = Inr None"
    and "fmlookup (entries (snd (loadSubtitleCache b now vid s))) vid = None"
    and "entry_count (snd (loadSubtitleCache b now vid s)) = entry_count s - 1"
    and "0 < entry_count s"
proof -
  from assms(1) have u: "usable b s" "get_ok b" "delete_ok b"
    by (simp_all add: healthy_def)
  have l: "loadSubtitleCache b now vid s = (Inr None, (opened s)\<lparr>entries := fmdrop vid (entries s)\<rparr>)"
    using u assms(2,3) by (simp add: load_usable)
  have d: "vid |\<in>| fmdom (entries s)"
    using assms(2) by (rule fmdomI)
  show "fst (loadSubtitleCache b now vid s) = Inr None"
    by (simp add: l)
  show "fmlookup (entries (snd (loadSubtitleCache b now vid s))) vid = None"
    by (simp add: l)
  show "entry_count (snd (loadSubtitleCache b now vid s)) = entry_count s - 1"
    using d by (simp add: l entry_count_def fcard_fminus_fsingleton)
  show "0 < entry_count s"
    using d fcard_fminus1_less [OF d] by (simp add: entry_count_def)
qed

lemma sweep_usable:
  assumes "usable b s" and "tx_ok b" and "delete_ok b"
  shows "fst (clearExpiredCache b now s) =
     Inr (fcard (fmdom (fmfilter (in_upperBound now (entries s)) (entries s))))"
  using assms by (simp add: clearExpiredCache_def initialize_usable usable_def)

lemma usable_holding: "usable good_browser (holding c)"
  by (simp add: usable_def isAvailable_def good_browser_def holding_def)

lemma opened_holding: "opened (holding c) = holding c"
  by (simp add: opened_def holding_def)

text \<open>
  C3, at its boundary. An entry with \<open>expiresAt = now\<close> is not valid (valid means
  \<open>now < expiresAt\<close>), and \<open>getCacheStats\<close> counts it as expired and \<open>clearExpiredCache\<close>
  deletes it, both through the closed range \<open>upperBound(now)\<close>. \<open>loadSubtitleCache\<close> tests
  \<open>expiresAt < now\<close> instead: it returns the entry and leaves the store as it is.
\<close>

theorem load_returns_entry_at_expiry:
  "expiresAt (entry ''BV1'' 1000) \<le> 1000
   \<and> loadSubtitleCache good_browser 1000 (ascii ''BV1'') (holding (entry ''BV1'' 1000))
       = (Inr (Some (entry ''BV1'' 1000)), holding (entry ''BV1'' 1000))
   \<and> fst (getCacheStats good_browser 1000 (holding (entry ''BV1'' 1000)))
       = Inr \<lparr>totalEntries = 1, expiredEntries = 1\<rparr>
   \<and> fst (clearExpiredCache good_browser 1000 (holding (entry ''BV1'' 1000))) = Inr 1"
proof -
  let ?s = "holding (entry ''BV1'' 1000)"
  have f: "fmfilter (in_upperBound 1000 (entries ?s)) (entries ?s) = entries ?s"
    by (rule fmfilter_true) (auto simp: in_upperBound_def holding_def entry_def split: if_splits)
  have c: "fcard (fmdom (entries ?s)) = 1"
    by (simp add: holding_def fcard_finsert_if)
  have ok: "get_ok good_browser" "tx_ok good_browser" "delete_ok good_browser"
    by (simp_all add: good_browser_def)
  have "expiresAt (entry ''BV1'' 1000) \<le> 1000"
    by (simp add: entry_def)
  moreover have "loadSubtitleCache good_browser 1000 (ascii ''BV1'') ?s
      = (Inr (Some (entry ''BV1'' 1000)), ?s)"
  proof -
    have "fmlookup (entries ?s) (ascii ''BV1'') = Some (entry ''BV1'' 1000)"
      by (simp add: holding_def entry_def)
    moreover have "\<not> expiresAt (entry ''BV1'' 1000) < 1000"
      by (simp add: entry_def)
    ultimately show ?thesis
      by (simp add: load_usable [OF usable_holding ok(1)] opened_holding)
  qed
  moreover have "fst (getCacheStats good_browser 1000 ?s)
      = Inr \<lparr>totalEntries = 1, expiredEntries = 1\<rparr>"
    by (simp add: stats_usable [OF usable_holding ok(2)] f c entry_count_def)
  moreover have "fst (clearExpiredCache good_browser 1000 ?s) = Inr 1"
    by (simp add: sweep_usable [OF usable_holding ok(2,3)] f c)
  ultimately show ?thesis by simp
qed


text \<open>
  C4, amended. When IndexedDB is not available, load returns null, remove and clear do
  nothing, the sweep returns 0 and the statistics are zero, none of them throws and the
  service is unchanged. \<open>saveSubtitleCache\<close> throws \<open>INDEXEDDB_NOT_AVAILABLE\<close>; its caller
  \<open>cacheResult\<close> catches that, and \<open>getCachedResult\<close> returns null.
\<close>

theorem unavailable_store_degrades:
  assumes "\<not> isAvailable b"
  shows "loadSubtitleCache b now vid s = (Inr None, s)
     \<and> clearVideoCache b vid s = (Inr (), s)
     \<and> clearAllCache b s = (Inr (), s)
     \<and> clearExpiredCache b now s = (Inr 0, s)
     \<and> getCacheStats b now s = (Inr \<lparr>totalEntries = 0, expiredEntries = 0\<rparr>, s)
     \<and> saveSubtitleCache b now cache s = (Inl INDEXEDDB_NOT_AVAILABLE, s)
     \<and> cacheResult b now vid subs lang s = s
     \<and> getCachedResult b now vid s = (JNull, s)"
  using assms
  by (simp add: loadSubtitleCache_def clearVideoCache_def clearAllCache_def
      clearExpiredCache_def getCacheStats_def saveSubtitleCache_def cacheResult_def
      getCachedResult_def)

lemma no_indexedDB_unavailable: "\<not> isAvailable no_indexedDB"
  by (simp add: isAvailable_def no_indexedDB_def good_browser_def)

theorem unavailable_store_degrades_witness:
  "\<not> isAvailable no_indexedDB
   \<and> loadSubtitleCache no_indexedDB 1000 (ascii ''BV1'') fresh = (Inr None, fresh)
   \<and> clearExpiredCache no_indexedDB 1000 fresh = (Inr 0, fresh)
   \<and> getCacheStats no_indexedDB 1000 fresh
        = (Inr \<lparr>totalEntries = 0, expiredEntries = 0\<rparr>, fresh)
   \<and> saveSubtitleCache no_indexedDB 1000 (entry ''BV1'' 0) fresh
        = (Inl INDEXEDDB_NOT_AVAILABLE, fresh)
   \<and> cacheResult no_indexedDB 1000 (ascii ''BV1'') (JArr []) (ascii ''zh'') fresh = fresh"
  using unavailable_store_degrades [OF no_indexedDB_unavailable, of 1000 "ascii ''BV1''" fresh
      "entry ''BV1'' 0" "JArr []" "ascii ''zh''"]
  by (simp add: no_indexedDB_unavailable)

text \<open>The claim as worded fails for save: without IndexedDB it throws.\<close>

theorem save_throws_when_unavailable:
  "fst (saveSubtitleCache no_indexedDB 1000 (entry ''BV1'' 0) fresh)
     = Inl INDEXEDDB_NOT_AVAILABLE"
  by (simp add: saveSubtitleCache_def no_indexedDB_unavailable)

text \<open>
  C8. On a healthy store, \<open>saveSubtitleCache\<close> at time \<open>now\<close> succeeds and stores the
  entry stamped \<open>cachedAt = now\<close>, \<open>expiresAt = now + CACHE_TTL\<close> under its \<open>videoId\<close>,
  whatever was stored there before; a \<open>loadSubtitleCache\<close> of that \<open>videoId\<close> at any time
  \<open>t < now + CACHE_TTL\<close> returns that entry, which has the subtitles that were saved.
\<close>

theorem save_then_load_round_trip:
  assumes "healthy b s" and "t < now + CACHE_TTL"
  shows "fst (saveSubtitleCache b now cache s) = Inr ()
     \<and> fmlookup (entries (snd (saveSubtitleCache b now cache s))) (c_videoId cache)
         = Some (stamped now cache)
     \<and> fst (loadSubtitleCache b t (c_videoId cache) (snd (saveSubtitleCache b now cache s)))
         = Inr (Some (stamped now cache))
     \<and> subtitles (stamped now cache) = subtitles cache
     \<and> cachedAt (stamped now cache) = now
     \<and> expiresAt (stamped now cache) = now + CACHE_TTL"
proof -
  from assms(1) have u: "usable b s" "put_ok b" "get_ok b"
    by (simp_all add: healthy_def)
  let ?s1 = "(opened s)\<lparr>entries := fmupd (c_videoId cache) (stamped now cache) (entries s)\<rparr>"
  have sv: "saveSubtitleCache b now cache s = (Inr (), ?s1)"
    using u by (simp add: save_usable stamped_def)
  have u1: "usable b ?s1"
    using u(1) by (simp add: usable_def opened_def)
  have lk: "fmlookup (entries ?s1) (c_videoId cache) = Some (stamped now cache)"
    by simp
  have "\<not> expiresAt (stamped now cache) < t"
    using assms(2) by (simp add: stamped_def)
  then have "fst (loadSubtitleCache b t (c_videoId cache) ?s1) = Inr (Some (stamped now cache))"
    by (simp add: load_usable [OF u1 u(3)] lk)
  then show ?thesis
    by (simp add: sv) (simp add: stamped_def)
qed

text \<open>
  Saving over an older entry of the same video at time 1000 and loading at 1001 returns
  the new entry, stamped 1000 and 1000 + 2592000000.
\<close>

lemma healthy_holding: "healthy good_browser (holding c)"
  by (simp add: healthy_def usable_holding) (simp add: good_browser_def)

theorem save_then_load_round_trip_witness:
  "healthy good_browser (holding (entry ''BV1'' 5))
   \<and> (1001::int) < 1000 + CACHE_TTL
   \<and> fst (loadSubtitleCache good_browser 1001 (ascii ''BV1'')
             (snd (saveSubtitleCache good_browser 1000 (entry ''BV1'' 0)
                     (holding (entry ''BV1'' 5)))))
       = Inr (Some ((entry ''BV1'' 0)\<lparr>cachedAt := 1000, expiresAt := 2592001000\<rparr>))"
proof -
  have t: "(1001::int) < 1000 + CACHE_TTL"
    by (simp add: CACHE_TTL_def)
  have v: "c_videoId (entry ''BV1'' 0) = ascii ''BV1''"
    by (simp add: entry_def)
  have st: "stamped 1000 (entry ''BV1'' 0)
      = (entry ''BV1'' 0)\<lparr>cachedAt := 1000, expiresAt := 2592001000\<rparr>"
    by (simp add: stamped_def CACHE_TTL_def)
  show ?thesis
    using save_then_load_round_trip [of good_browser "holding (entry ''BV1'' 5)" 1001 1000
        "entry ''BV1'' 0", OF healthy_holding t]
    by (simp add: healthy_holding t v st)
qed

section \<open>The transcription service\<close>

lemma truthy_array: "is_array v \<Longrightarrow> truthy v"
  by (cases v) (simp_all add: is_array_def)

lemma begin_cache_hit:
  assumes "usable b (store w)" and "get_ok b"
    and "fmlookup (entries (store w)) (o_videoId options) = Some c"
    and "\<not> expiresAt c < now" and "source c = SpeechRecognition" and "truthy (subtitles c)"
    and "\<not> forceRefresh_of options"
  shows "transcribe_begin b now options w =
     (Some (speech_result options (subtitles c) True), w\<lparr>store := opened (store w)\<rparr>)"
  using assms
  by (simp add: transcribe_begin_def getCachedResult_def load_usable speech_result_def)

lemma begin_forceRefresh:
  "forceRefresh_of options \<Longrightarrow>
   transcribe_begin b now options w = (None, w\<lparr>requests := requests w @ [request_of options]\<rparr>)"
  by (simp add: transcribe_begin_def)

lemma complete_ok:
  assumes "ok r" and "json r = Some data" and "get_prop data (ascii ''subtitles'') = Inr subs"
  shows "transcribe_complete b now options (Responds r) w =
     (Inr (speech_result options subs False),
      w\<lparr>store := cacheResult b now (o_videoId options) subs (language_of options) (store w)\<rparr>)"
  using assms by (simp add: transcribe_complete_def speech_result_def)

lemma cacheResult_healthy:
  assumes "usable b s" and "put_ok b"
  shows "cacheResult b now (o_videoId options) subs (language_of options) s =
     (opened s)\<lparr>entries := fmupd (o_videoId options) (speech_entry options subs now) (entries s)\<rparr>"
  using assms by (simp add: cacheResult_def save_usable speech_entry_def CACHE_TTL_def)

lemma begin_cache_miss:
  assumes "usable b (store w)" and "get_ok b"
    and "fmlookup (entries (store w)) (o_videoId options) = None"
    and "\<not> forceRefresh_of options"
  shows "transcribe_begin b now options w =
     (None, w\<lparr>store := opened (store w), requests := requests w @ [request_of options]\<rparr>)"
  using assms
  by (simp add: transcribe_begin_def getCachedResult_def load_usable)

lemma world_of_simps: "store (world_of s) = s" "requests (world_of s) = []"
  by (simp_all add: world_of_def)

lemma usable_fresh: "open_ok b \<Longrightarrow> isAvailable b \<Longrightarrow> usable b fresh"
  by (simp add: usable_def fresh_def)

lemma POST_answers:
  "q_videoId q \<noteq> [] \<Longrightarrow> POST (Some (request_json q)) True (Inr subs)
     = \<lparr>status = 200, json = Some (JObj [(ascii ''subtitles'', subs)])\<rparr>"
  "q_videoId q \<noteq> [] \<Longrightarrow> POST (Some (request_json q)) False pipeline
     = error_response 500 ''API_ERROR''"
  "q_videoId q \<noteq> [] \<Longrightarrow> POST (Some (request_json q)) True (Inl OtherError)
     = error_response 500 ''TRANSCRIPTION_FAILED''"
  "q_videoId q \<noteq> [] \<Longrightarrow> POST (Some (request_json q)) True (Inl (OpenAI_APIError (Some 429)))
     = error_response 429 ''API_ERROR''"
  "q_videoId q = [] \<Longrightarrow> POST (Some (request_json q)) key pipeline
     = error_response 400 ''INVALID_PARAMS''"
  by (simp_all add: POST_def request_json_def caught_def ascii_def)







text \<open>
  C5. If the store is usable and holds for the \<open>videoId\<close> an entry that is valid
  (\<open>now < expiresAt\<close>), speech-sourced and whose subtitles are an array, a call with
  \<open>forceRefresh\<close> false returns those subtitles with \<open>cached = true\<close> and sends no request.
  With \<open>forceRefresh\<close> true the call sends its request without reading the cache; when the
  answer is ok and carries \<open>subtitles\<close>, it returns them with \<open>cached = false\<close>, and if the
  store accepts the write they are stored under the \<open>videoId\<close>, stamped with the time of
  the write.
\<close>

theorem transcribeVideo_cache_hit_and_refresh:
  "(usable b (store w) \<and> get_ok b
      \<and> fmlookup (entries (store w)) (o_videoId options) = Some c
      \<and> now1 < expiresAt c \<and> source c = SpeechRecognition \<and> is_array (subtitles c)
      \<and> \<not> forceRefresh_of options
    \<longrightarrow> fst (transcribeVideo b now1 now2 options outcome w)
          = Inr (speech_result options (subtitles c) True)
        \<and> requests (snd (transcribeVideo b now1 now2 options outcome w)) = requests w)
   \<and> (forceRefresh_of options \<and> ok r \<and> json r = Some data
        \<and> get_prop data (ascii ''subtitles'') = Inr subs
    \<longrightarrow> transcribe_begin b now1 options w
          = (None, w\<lparr>requests := requests w @ [request_of options]\<rparr>)
        \<and> fst (transcribeVideo b now1 now2 options (Responds r) w)
          = Inr (speech_result options subs False)
        \<and> requests (snd (transcribeVideo b now1 now2 options (Responds r) w))
          = requests w @ [request_of options]
        \<and> (usable b (store w) \<and> put_ok b
            \<longrightarrow> fmlookup (entries (store (snd (transcribeVideo b now1 now2 options (Responds r) w))))
                  (o_videoId options)
                = Some (speech_entry options subs now2)))"
proof (intro conjI impI; (elim conjE)?)
  assume "usable b (store w)" "get_ok b"
    "fmlookup (entries (store w)) (o_videoId options) = Some c"
    "now1 < expiresAt c" "source c = SpeechRecognition" "is_array (subtitles c)"
    "\<not> forceRefresh_of options"
  then have hit: "transcribe_begin b now1 options w =
     (Some (speech_result options (subtitles c) True), w\<lparr>store := opened (store w)\<rparr>)"
    by (intro begin_cache_hit) (simp_all add: truthy_array)
  show "fst (transcribeVideo b now1 now2 options outcome w)
          = Inr (speech_result options (subtitles c) True)"
    by (simp add: transcribeVideo_def hit)
  show "requests (snd (transcribeVideo b now1 now2 options outcome w)) = requests w"
    by (simp add: transcribeVideo_def hit)
next
  assume f: "forceRefresh_of options" and r: "ok r" "json r = Some data"
    "get_prop data (ascii ''subtitles'') = Inr subs"
  show b: "transcribe_begin b now1 options w
          = (None, w\<lparr>requests := requests w @ [request_of options]\<rparr>)"
    using f by (rule begin_forceRefresh)
  show "fst (transcribeVideo b now1 now2 options (Responds r) w)
          = Inr (speech_result options subs False)"
    by (simp add: transcribeVideo_def b complete_ok [OF r])
  show "requests (snd (transcribeVideo b now1 now2 options (Responds r) w))
          = requests w @ [request_of options]"
    by (simp add: transcribeVideo_def b complete_ok [OF r])
  assume "usable b (store w)" "put_ok b"
  then show "fmlookup (entries (store (snd (transcribeVideo b now1 now2 options (Responds r) w))))
                  (o_videoId options)
                = Some (speech_entry options subs now2)"
    by (simp add: transcribeVideo_def b complete_ok [OF r] cacheResult_healthy)
qed


lemma get_subtitles: "get_prop (JObj [(ascii ''subtitles'', subs)]) (ascii ''subtitles'') = Inr subs"
  by simp

theorem transcribeVideo_cache_hit_and_refresh_witness:
  "fst (transcribeVideo good_browser 1000 1001 (options_for ''BV1'' None) Rejects
          (world_of (holding (entry ''BV1'' 2000))))
     = Inr (speech_result (options_for ''BV1'' None) (subtitles (entry ''BV1'' 2000)) True)
   \<and> requests (snd (transcribeVideo good_browser 1000 1001 (options_for ''BV1'' None) Rejects
                      (world_of (holding (entry ''BV1'' 2000))))) = []
   \<and> fst (transcribeVideo good_browser 1000 1001 (options_for ''BV1'' (Some True))
            (Responds (POST (Some (request_json (request_of (options_for ''BV1'' None)))) True (Inr two_segments)))
            (world_of (holding (entry ''BV1'' 2000))))
     = Inr (speech_result (options_for ''BV1'' (Some True)) two_segments False)
   \<and> fmlookup (entries (store (snd (transcribeVideo good_browser 1000 1001
            (options_for ''BV1'' (Some True))
            (Responds (POST (Some (request_json (request_of (options_for ''BV1'' None)))) True (Inr two_segments)))
            (world_of (holding (entry ''BV1'' 2000))))))) (ascii ''BV1'')
     = Some (speech_entry (options_for ''BV1'' (Some True)) two_segments 1001)"
proof -
  let ?w = "world_of (holding (entry ''BV1'' 2000))"
  let ?r = "POST (Some (request_json (request_of (options_for ''BV1'' None)))) True (Inr two_segments)"
  have h: "usable good_browser (store ?w)" "get_ok good_browser" "put_ok good_browser"
    by (simp_all add: world_of_def usable_holding) (simp_all add: good_browser_def)
  have e: "fmlookup (entries (store ?w)) (o_videoId (options_for ''BV1'' None))
             = Some (entry ''BV1'' 2000)"
    "(1000::int) < expiresAt (entry ''BV1'' 2000)" "source (entry ''BV1'' 2000) = SpeechRecognition"
    "is_array (subtitles (entry ''BV1'' 2000))"
    by (simp_all add: world_of_def holding_def entry_def options_for_def is_array_def)
  have f: "\<not> forceRefresh_of (options_for ''BV1'' None)"
    "forceRefresh_of (options_for ''BV1'' (Some True))"
    by (simp_all add: forceRefresh_of_def options_for_def)
  have q: "q_videoId (request_of (options_for ''BV1'' None)) \<noteq> []"
    by (simp add: request_of_def options_for_def ascii_def)
  have r: "ok ?r" "json ?r = Some (JObj [(ascii ''subtitles'', two_segments)])"
    by (simp_all add: POST_answers(1) [OF q] ok_def)
  have v: "o_videoId (options_for ''BV1'' (Some True)) = ascii ''BV1''"
    by (simp add: options_for_def)
  have w: "requests ?w = []"
    by (simp add: world_of_def)
  from transcribeVideo_cache_hit_and_refresh
         [of good_browser ?w "options_for ''BV1'' None" "entry ''BV1'' 2000" 1000 1001 Rejects,
          THEN conjunct1]
  have a: "fst (transcribeVideo good_browser 1000 1001 (options_for ''BV1'' None) Rejects ?w)
       = Inr (speech_result (options_for ''BV1'' None) (subtitles (entry ''BV1'' 2000)) True)
     \<and> requests (snd (transcribeVideo good_browser 1000 1001 (options_for ''BV1'' None) Rejects ?w))
       = []"
    using h e f(1) w by simp
  from transcribeVideo_cache_hit_and_refresh
         [of good_browser ?w "options_for ''BV1'' (Some True)" _ 1000 1001 _ ?r
             "JObj [(ascii ''subtitles'', two_segments)]" two_segments,
          THEN conjunct2]
  have b: "fst (transcribeVideo good_browser 1000 1001 (options_for ''BV1'' (Some True))
              (Responds ?r) ?w)
       = Inr (speech_result (options_for ''BV1'' (Some True)) two_segments False)
     \<and> fmlookup (entries (store (snd (transcribeVideo good_browser 1000 1001
              (options_for ''BV1'' (Some True)) (Responds ?r) ?w)))) (ascii ''BV1'')
       = Some (speech_entry (options_for ''BV1'' (Some True)) two_segments 1001)"
    using h f(2) r get_subtitles [of two_segments] v by simp
  from a b show ?thesis by simp
qed
text \<open>
  C10. When a call has gone to the service, the answer is ok and carries \<open>subtitles\<close>, and
  \<open>saveSubtitleCache\<close> throws on the write, \<open>transcribeVideo\<close> still returns those
  subtitles with \<open>cached = false\<close>.
\<close>

theorem transcribeVideo_survives_cache_failure:
  assumes "fst (transcribe_begin b now1 options w) = None"
    and "ok r" and "json r = Some data" and "get_prop data (ascii ''subtitles'') = Inr subs"
    and "fst (saveSubtitleCache b now2
               \<lparr>c_videoId = o_videoId options, subtitles = subs, cachedAt = now2,
                expiresAt = now2 + 30 * 24 * 60 * 60 * 1000, source = SpeechRecognition,
                c_language = language_of options\<rparr>
               (store (snd (transcribe_begin b now1 options w)))) = Inl e"
  shows "fst (transcribeVideo b now1 now2 options (Responds r) w)
           = Inr (speech_result options subs False)"
proof -
  obtain w1 where b: "transcribe_begin b now1 options w = (None, w1)"
    using assms(1) by (cases "transcribe_begin b now1 options w") simp
  show ?thesis
    by (simp add: transcribeVideo_def b complete_ok [OF assms(2-4)])
qed

text \<open>
  A store that opens but rejects the write: the save throws \<open>CACHE_SAVE_FAILED\<close> and the
  call returns the two segments.
\<close>

theorem transcribeVideo_survives_cache_failure_witness:
  "fst (saveSubtitleCache quota_full 1001
          \<lparr>c_videoId = ascii ''BV1'', subtitles = two_segments, cachedAt = 1001,
           expiresAt = 1001 + 30 * 24 * 60 * 60 * 1000, source = SpeechRecognition,
           c_language = ascii ''zh''\<rparr>
          (opened fresh)) = Inl CACHE_SAVE_FAILED
   \<and> fst (transcribeVideo quota_full 1000 1001 (options_for ''BV1'' None)
            (Responds (POST (Some (request_json (request_of (options_for ''BV1'' None)))) True (Inr two_segments)))
            (world_of fresh))
       = Inr (speech_result (options_for ''BV1'' None) two_segments False)"
proof -
  let ?o = "options_for ''BV1'' None"
  let ?r = "POST (Some (request_json (request_of (options_for ''BV1'' None)))) True (Inr two_segments)"
  have q: "isAvailable quota_full" "open_ok quota_full" "get_ok quota_full" "\<not> put_ok quota_full"
    by (simp_all add: quota_full_def good_browser_def isAvailable_def)
  have u: "usable quota_full (store (world_of fresh))"
    using q by (simp add: world_of_def usable_fresh)
  have m: "fmlookup (entries (store (world_of fresh))) (o_videoId ?o) = None"
    by (simp add: world_of_def fresh_def)
  have f: "\<not> forceRefresh_of ?o"
    by (simp add: forceRefresh_of_def options_for_def)
  note b = begin_cache_miss [OF u q(3) m f, of 1000]
  have o: "o_videoId ?o = ascii ''BV1''" "language_of ?o = ascii ''zh''"
    by (simp_all add: options_for_def language_of_def)
  have sv: "fst (saveSubtitleCache quota_full 1001
          \<lparr>c_videoId = ascii ''BV1'', subtitles = two_segments, cachedAt = 1001,
           expiresAt = 1001 + 30 * 24 * 60 * 60 * 1000, source = SpeechRecognition,
           c_language = ascii ''zh''\<rparr>
          (opened fresh)) = Inl CACHE_SAVE_FAILED"
    using q by (simp add: saveSubtitleCache_def initialize_def opened_def fresh_def)
  have v: "q_videoId (request_of ?o) \<noteq> []"
    by (simp add: request_of_def options_for_def ascii_def)
  have r: "ok ?r" "json ?r = Some (JObj [(ascii ''subtitles'', two_segments)])"
    by (simp_all add: POST_answers(1) [OF v] ok_def)
  have "fst (transcribeVideo quota_full 1000 1001 ?o (Responds ?r) (world_of fresh))
       = Inr (speech_result ?o two_segments False)"
    by (rule transcribeVideo_survives_cache_failure
             [where e = CACHE_SAVE_FAILED and data = "JObj [(ascii ''subtitles'', two_segments)]"])
       (simp_all add: b r o sv [simplified] world_of_simps)
  with sv show ?thesis by simp
qed






section \<open>The page\<close>

lemma step_keeps_terminal:
  "isNonRetryableError p \<Longrightarrow> \<not> is_video_change ev \<Longrightarrow>
   isNonRetryableError (step p ev) \<and> transcribe_calls (step p ev) = transcribe_calls p"
  by (cases ev)
     (auto simp: triggerSpeechRecognition_def transcription_settled_def
        handleRetryTranscription_def handleDismissError_def split: option.splits)

lemma run_keeps_terminal:
  "isNonRetryableError p \<Longrightarrow> \<forall>ev \<in> set evs. \<not> is_video_change ev \<Longrightarrow>
   isNonRetryableError (run p evs) \<and> transcribe_calls (run p evs) = transcribe_calls p"
proof (induction evs arbitrary: p)
  case Nil
  then show ?case by (simp add: run_def)
next
  case (Cons ev evs)
  from Cons.prems have s: "isNonRetryableError (step p ev)"
    "transcribe_calls (step p ev) = transcribe_calls p"
    using step_keeps_terminal [of p ev] by auto
  from Cons.IH [OF s(1)] Cons.prems(2) s(2) show ?case
    by (simp add: run_def)
qed

text \<open>
  The part of C9 that the code keeps: while the \<open>videoId\<close> of the route does not change,
  a failure the page takes as terminal (\<open>retryable === false\<close> or status 501) is
  remembered, and no sequence of effect runs, updates from the hooks, settling calls,
  dismissals and clicks on retry makes the page call \<open>transcribeVideo\<close> again.
\<close>

lemma no_retry_while_videoId_unchanged:
  assumes "nonRetryable err" and "\<forall>ev \<in> set evs. \<not> is_video_change ev"
  shows "isNonRetryableError (transcription_settled (Some err) p)
     \<and> transcribe_calls (run (transcription_settled (Some err) p) evs)
         = transcribe_calls (transcription_settled (Some err) p)
     \<and> transcribe_calls (transcription_settled (Some err) p) = transcribe_calls p"
proof -
  have t: "isNonRetryableError (transcription_settled (Some err) p)"
    using assms(1) by (simp add: transcription_settled_def)
  from run_keeps_terminal [OF t assms(2)] t show ?thesis
    by (simp add: transcription_settled_def)
qed

text \<open>
  C9, where the code breaks it. The page shows video \<open>BV1\<close>, which has no native
  subtitles. The effect calls \<open>transcribeVideo\<close> for \<open>BV1\<close>; the call fails with status 500,
  which the page takes as terminal and remembers. Then the \<open>videoId\<close> of the route
  changes to \<open>BV2\<close>: the effect on \<open>[videoId]\<close> clears the remembered failure while \<open>video\<close>
  is still \<open>BV1\<close>, and the transcription effect, run again, calls \<open>transcribeVideo\<close> for
  \<open>BV1\<close> a second time. No retry was clicked.
\<close>

theorem video_change_retries_failed_video:
  "nonRetryable error_500
   \<and> isNonRetryableError (run no_subtitles_page [EffectRuns, Settled (Some error_500)])
   \<and> transcribe_calls (run no_subtitles_page [EffectRuns, Settled (Some error_500)])
       = [ascii ''BV1'']
   \<and> transcribe_calls
        (run no_subtitles_page
           [EffectRuns, Settled (Some error_500), VideoChanged (ascii ''BV2''), EffectRuns])
       = [ascii ''BV1'', ascii ''BV1'']"
  by (simp add: run_def no_subtitles_page_def error_500_def triggerSpeechRecognition_def
      transcription_settled_def reset_on_video_change_def)

text \<open>
  Without the change of \<open>videoId\<close> the page stays at one call, whatever is clicked; after
  a retryable failure a click on retry does lead to a second call.
\<close>

lemma one_call_after_terminal_failure:
  "transcribe_calls
     (run no_subtitles_page
        [EffectRuns, Settled (Some error_500), EffectRuns, RetryClicked, EffectRuns,
         DismissClicked, HookUpdate (Some (ascii ''BV1'')) True (Some NO_SUBTITLES) Pending,
         EffectRuns])
     = [ascii ''BV1'']"
  by (simp add: run_def no_subtitles_page_def error_500_def triggerSpeechRecognition_def
      transcription_settled_def handleRetryTranscription_def handleDismissError_def)

lemma retry_after_retryable_failure:
  "transcribe_calls
     (run no_subtitles_page
        [EffectRuns, Settled (Some (ApiError (JStr (ascii ''API_ERROR'')) 429 True)),
         EffectRuns, RetryClicked, EffectRuns])
     = [ascii ''BV1'', ascii ''BV1'']"
  by (simp add: run_def no_subtitles_page_def triggerSpeechRecognition_def
      transcription_settled_def handleRetryTranscription_def)

end
